theory Spec2Isabelle
  imports Main "HOL-Library.Word"
begin

unbundle bit_operations_syntax

section \<open>Machine values\<close>

text \<open>
  The embedding follows \<^verbatim>\<open>DirectX11/HackerDevice.cpp\<close>. Bytes are 8-bit words, a
  \<^verbatim>\<open>FILETIME\<close> is its 64-bit value, an \<^verbatim>\<open>HRESULT\<close> and a C \<^verbatim>\<open>int\<close> are
  32-bit words (read signed with \<open>sint\<close>), a shader hash is a \<^verbatim>\<open>UINT64\<close>. A pointer to
  a COM object is a natural number, \<open>0\<close> being \<^verbatim>\<open>nullptr\<close>. Wide strings are strings.
\<close>

type_synonym byte = "8 word"
type_synonym bytes = "byte list"
type_synonym filetime = "64 word"
type_synonym hresult = "32 word"
type_synonym cint = "32 word"
type_synonym ptr = nat
type_synonym path = string

definition S_OK :: hresult where
  "S_OK = 0"

definition E_FAIL :: hresult where
  "E_FAIL = 0x80004005"

definition FAILED :: "hresult \<Rightarrow> bool" where
  "FAILED hr = (sint hr < 0)"

definition SUCCEEDED :: "hresult \<Rightarrow> bool" where
  "SUCCEEDED hr = (0 \<le> sint hr)"

definition nullptr :: ptr where
  "nullptr = 0"

section \<open>Files\<close>

text \<open>
  A file is what the Win32 calls of the source report about it: \<^verbatim>\<open>GetFileSize\<close>,
  what \<^verbatim>\<open>ReadFile\<close> delivers (\<open>None\<close> when it returns \<^verbatim>\<open>FALSE\<close>, otherwise the bytes
  read, which may be fewer than the size), and what \<^verbatim>\<open>GetFileTime\<close> reports as the
  last write time (\<open>None\<close> when it fails). The file system maps the paths that
  \<^verbatim>\<open>CreateFile\<close> (\<^verbatim>\<open>OPEN_EXISTING\<close>) can open to their files.
\<close>

record disk_file =
  f_size :: nat
  f_read :: "bytes option"
  f_time :: "filetime option"

type_synonym filesystem = "path \<rightharpoonup> disk_file"

definition GetFileSize :: "disk_file \<Rightarrow> nat" where
  "GetFileSize f = f_size f"

definition GetFileTime :: "disk_file \<Rightarrow> filetime option" where
  "GetFileTime f = f_time f"

text \<open>
  \<^verbatim>\<open>ReadFile(f, buf, size, &read_size, nullptr)\<close> followed by the source's test
  \<^verbatim>\<open>!ReadFile(...) || file_size != read_size\<close>: the read is complete when the call
  succeeds and delivers exactly \<^verbatim>\<open>GetFileSize\<close> bytes.
\<close>

definition read_complete :: "disk_file \<Rightarrow> bool" where
  "read_complete f = (case f_read f of None \<Rightarrow> False | Some bs \<Rightarrow> length bs = f_size f)"

text \<open>
  The buffer after the read, whether or not it was complete: the bytes delivered,
  then whatever the freshly allocated buffer held (\<open>junk\<close>).
\<close>

definition buffer_after_read :: "(nat \<Rightarrow> bytes) \<Rightarrow> disk_file \<Rightarrow> bytes" where
  "buffer_after_read junk f =
     (case f_read f of
        None \<Rightarrow> take (f_size f) (junk (f_size f))
      | Some bs \<Rightarrow> take (f_size f) (bs @ junk (f_size f - length bs)))"

text \<open>A file as \<^verbatim>\<open>fwrite\<close> and \<^verbatim>\<open>fclose\<close> leave it, stamped by the system.\<close>

definition written_file :: "bytes \<Rightarrow> filetime \<Rightarrow> disk_file" where
  "written_file bs t = \<lparr> f_size = length bs, f_read = Some bs, f_time = Some t \<rparr>"

section \<open>Paths\<close>

definition backslash :: string where
  "backslash = [CHR 0x5C]"

definition hex_digit :: "nat \<Rightarrow> char" where
  "hex_digit n = ''0123456789abcdef'' ! n"

text \<open>The format \<^verbatim>\<open>%016llx\<close>: sixteen lower-case hexadecimal digits.\<close>

definition hex16 :: "64 word \<Rightarrow> string" where
  "hex16 h = map (\<lambda>i. hex_digit (unat (drop_bit (4 * i) h AND 0xF))) (rev [0..<16])"

text \<open>\<^verbatim>\<open>swprintf_s(path, MAX_PATH, L"%ls\\%016llx-%ls<suffix>", dir, hash, shader_type)\<close>.\<close>

definition shader_file :: "path \<Rightarrow> 64 word \<Rightarrow> string \<Rightarrow> string \<Rightarrow> path" where
  "shader_file dir hash shader_type suffix =
     dir @ backslash @ hex16 hash @ ''-'' @ shader_type @ suffix"

text \<open>\<^verbatim>\<open>wcsstr\<close>: the index of the first occurrence of the needle.\<close>

fun wcsstr :: "string \<Rightarrow> string \<Rightarrow> nat option" where
  "wcsstr [] needle = (if needle = [] then Some 0 else None)"
| "wcsstr (c # cs) needle =
     (if take (length needle) (c # cs) = needle then Some 0
      else map_option Suc (wcsstr cs needle))"

text \<open>
  The paired text source of a binary, as \<^verbatim>\<open>check_cache_timestamp\<close> names it: the
  path is cut at the first \<^verbatim>\<open>.bin\<close> and \<^verbatim>\<open>.txt\<close> is written there. Both callers pass
  a path that ends in \<^verbatim>\<open>.bin\<close>; the source does not test for a missing needle.
\<close>

definition txt_path_of :: "path \<Rightarrow> path" where
  "txt_path_of bin_path =
     (case wcsstr bin_path ''.bin'' of
        Some i \<Rightarrow> take i bin_path @ ''.txt''
      | None \<Rightarrow> bin_path)"

section \<open>Configuration, collaborators and state\<close>

text \<open>
  The enumerations and the \<^verbatim>\<open>ShaderOverride\<close> and \<^verbatim>\<open>OriginalShaderInfo\<close> structures are
  declared in \<^verbatim>\<open>Globals.h\<close>; only the members this file reads or writes appear.
\<close>

datatype MarkingMode = SKIP | ORIGINAL | PINK | MONO

datatype DepthBufferFilter = DEPTH_NONE | DEPTH_ACTIVE | DEPTH_INACTIVE

record shader_override =
  model :: string
  depth_filter :: DepthBufferFilter
  partner_hash :: "64 word"

record OriginalShaderInfo =
  hash :: "64 word"
  shaderType :: string
  shaderModel :: string
  linkage :: ptr
  byteCode :: ptr
  timeStamp :: filetime
  replacement :: ptr
  infoText :: string
  deferred_replacement_candidate :: bool
  deferred_replacement_processed :: bool

text \<open>
  The settings of \<^verbatim>\<open>G\<close> that the functions below read and never write.
  \<open>hunting\<close> is the value of \<^verbatim>\<open>hunting_enabled()\<close> (\<^verbatim>\<open>Hunting.hpp\<close>), \<open>LogFile\<close> tells
  whether the log file is open.
\<close>

record globals =
  SHADER_PATH :: path
  SHADER_CACHE_PATH :: path
  EXPORT_BINARY :: bool
  EXPORT_SHADERS :: bool
  EXPORT_HLSL :: cint
  EXPORT_FIXED :: bool
  CACHE_SHADERS :: bool
  fixSvPosition :: bool
  recompileVs :: bool
  patch_cb_offsets :: bool
  assemble_signature_comments :: bool
  recursive_include :: cint
  LogFile :: bool
  hunting :: bool
  marking_mode :: MarkingMode
  config_reloadable :: bool
  show_original_enabled :: bool
  mShaderOverrideMap :: "64 word \<rightharpoonup> shader_override"
  shader_regex_groups :: "string list"
  gSurfaceSquareCreateMode :: cint

text \<open>What the assembler returns: it throws, or gives the bytes and the parse errors.\<close>

datatype assemble_result = Threw | Assembled bytes "string list"

text \<open>
  Every call that leaves the engine is recorded, in order: the real device's
  \<^verbatim>\<open>CreateXXXShader\<close> (bytecode, length, class linkage, whether \<^verbatim>\<open>ppShader\<close> is
  non-null; then the result and the handle written), \<^verbatim>\<open>D3DCreateBlob\<close>, the COM
  reference counts, and the disassembler, compiler, assembler and decompiler.
\<close>

datatype event =
    OrigCreateShader "bytes option" nat ptr bool hresult ptr
  | CreateBlob nat hresult ptr
  | AddRef ptr
  | Release ptr
  | Disassemble bytes
  | Compile bytes string
  | Assemble bytes
  | Decompile bytes

text \<open>
  The collaborators, none of them in this file: each is a parameter, so a theorem
  holds whatever they compute. The device and \<^verbatim>\<open>D3DCreateBlob\<close> may answer by the
  calls made so far. \<open>uninit_bytes\<close> and \<open>uninit_filetime\<close> stand for what an
  uninitialised buffer or \<^verbatim>\<open>FILETIME\<close> holds. \<open>hash_shader\<close> is the fingerprint
  engine, \<open>create_asm_text_file\<close> the assembly export, \<open>wfopen_ensuring_access\<close>
  tells whether a path opens for writing and \<open>write_time\<close> when the system stamps
  it, \<open>utf8_first_line\<close> decodes a source's first line.
\<close>

record env =
  uninit_bytes :: "nat \<Rightarrow> bytes"
  uninit_filetime :: filetime
  hash_shader :: "bytes \<Rightarrow> 64 word"
  get_shader_model :: "bytes \<Rightarrow> string"
  binary_to_asm_text :: "bytes \<Rightarrow> bool \<Rightarrow> bytes"
  D3DCompile :: "bytes \<Rightarrow> path \<Rightarrow> bool \<Rightarrow> string \<Rightarrow> hresult \<times> bytes option \<times> bytes option"
  assemble_flugan :: "bytes \<Rightarrow> bool \<Rightarrow> bytes \<Rightarrow> assemble_result"
  DecompileBinaryHLSL :: "bytes \<Rightarrow> bytes \<Rightarrow> bytes \<times> bool \<times> string \<times> bool"
  utf8_first_line :: "bytes \<Rightarrow> string"
  wfopen_ensuring_access :: "path \<Rightarrow> bool"
  write_time :: "path \<Rightarrow> filetime"
  create_asm_text_file :: "path \<Rightarrow> 64 word \<Rightarrow> string \<Rightarrow> bytes \<Rightarrow> bool \<Rightarrow> filesystem \<Rightarrow> filesystem"
  device_CreateShader :: "event list \<Rightarrow> bytes option \<Rightarrow> nat \<Rightarrow> ptr \<Rightarrow> bool \<Rightarrow> hresult \<times> ptr"
  D3DCreateBlob :: "event list \<Rightarrow> nat \<Rightarrow> hresult \<times> ptr"

text \<open>
  What the functions change: the files, the three handle-keyed tables of \<^verbatim>\<open>G\<close>, the
  contents of the blobs created, and the record of outside calls.
\<close>

record state =
  files :: filesystem
  mShaders :: "ptr \<rightharpoonup> 64 word"
  mReloadedShaders :: "ptr \<rightharpoonup> OriginalShaderInfo"
  mOriginalShaders :: "ptr \<rightharpoonup> ptr"
  blobs :: "ptr \<rightharpoonup> bytes"
  trace :: "event list"

definition emit :: "event \<Rightarrow> state \<Rightarrow> state" where
  "emit e s = s\<lparr>trace := trace s @ [e]\<rparr>"

text \<open>
  The reference parameters of the resolver: \<^verbatim>\<open>code\<close> with \<^verbatim>\<open>code_size\<close> (\<open>None\<close> is
  \<^verbatim>\<open>nullptr\<close>), \<^verbatim>\<open>found_shader_model\<close>, \<^verbatim>\<open>time_stamp\<close> and \<^verbatim>\<open>header_line\<close>.
\<close>

record outs =
  code :: "bytes option"
  found_shader_model :: string
  time_stamp :: filetime
  header_line :: string

section \<open>The cached binary and its timestamp\<close>

text \<open>
  \<^verbatim>\<open>get_file_last_write_time\<close>: the result of \<^verbatim>\<open>GetFileTime\<close> is not tested, so a
  failure leaves \<^verbatim>\<open>*ft_write\<close> as it was.
\<close>

definition get_file_last_write_time :: "filesystem \<Rightarrow> path \<Rightarrow> filetime \<Rightarrow> bool \<times> filetime" where
  "get_file_last_write_time fs p ft_write =
     (case fs p of
        None \<Rightarrow> (False, ft_write)
      | Some f \<Rightarrow> (True, case GetFileTime f of Some t \<Rightarrow> t | None \<Rightarrow> ft_write))"

text \<open>
  \<^verbatim>\<open>check_cache_timestamp\<close>: \<^verbatim>\<open>CompareFileTime\<close> is non-zero exactly when the two
  times differ. The result is the verdict and \<^verbatim>\<open>time_stamp\<close>.
\<close>

definition check_cache_timestamp ::
  "env \<Rightarrow> filesystem \<Rightarrow> disk_file \<Rightarrow> path \<Rightarrow> filetime \<Rightarrow> bool \<times> filetime" where
  "check_cache_timestamp E fs bin_handle bin_path ts =
     (case get_file_last_write_time fs (txt_path_of bin_path) (uninit_filetime E) of
        (False, _) \<Rightarrow> (True, ts)
      | (True, txt_time) \<Rightarrow>
          (case GetFileTime bin_handle of
             None \<Rightarrow> (True, ts)
           | Some bin_time \<Rightarrow>
               if bin_time \<noteq> txt_time then (False, ts) else (True, txt_time)))"

text \<open>
  \<^verbatim>\<open>load_cached_shader\<close>: \<^verbatim>\<open>warn_if_conflicting_shader_exists\<close> only logs. The
  result is the verdict and the reference parameters.
\<close>

definition load_cached_shader :: "env \<Rightarrow> filesystem \<Rightarrow> path \<Rightarrow> outs \<Rightarrow> bool \<times> outs" where
  "load_cached_shader E fs bin_path out =
     (case fs bin_path of
        None \<Rightarrow> (False, out)
      | Some f \<Rightarrow>
          (case check_cache_timestamp E fs f bin_path (time_stamp out) of
             (False, ts) \<Rightarrow> (False, out\<lparr>time_stamp := ts\<rparr>)
           | (True, ts) \<Rightarrow>
               if \<not> read_complete f then (False, out\<lparr>code := None, time_stamp := ts\<rparr>)
               else (True, out\<lparr>code := f_read f, found_shader_model := ''bin'',
                                 time_stamp := ts\<rparr>)))"

definition load_binary_shaders ::
  "globals \<Rightarrow> env \<Rightarrow> filesystem \<Rightarrow> 64 word \<Rightarrow> string \<Rightarrow> outs \<Rightarrow> bool \<times> outs" where
  "load_binary_shaders G E fs h shader_type out =
     (case load_cached_shader E fs (shader_file (SHADER_PATH G) h shader_type ''_replace.bin'') out of
        (True, out1) \<Rightarrow> (True, out1)
      | (False, out1) \<Rightarrow>
          load_cached_shader E fs (shader_file (SHADER_PATH G) h shader_type ''.bin'') out1)"

section \<open>Exporting the original binary\<close>

fun show_nat :: "nat \<Rightarrow> string" where
  "show_nat n = (if n < 10 then [hex_digit n] else show_nat (n div 10) @ [hex_digit (n mod 10)])"

declare show_nat.simps [simp del]

text \<open>
  The loop of \<^verbatim>\<open>export_orig_binary\<close>: it looks for a file holding the same bytes, under
  the plain name and then under \<^verbatim>\<open>_1\<close>, \<^verbatim>\<open>_2\<close>, ... The counter is an \<^verbatim>\<open>int\<close>, so
  the fuel is the number of times it can be incremented. The result tells whether
  the bytes were found, and the last path tried.
\<close>

fun export_probe :: "nat \<Rightarrow> env \<Rightarrow> filesystem \<Rightarrow> path \<Rightarrow> bytes \<Rightarrow> nat \<Rightarrow> path \<Rightarrow> bool \<times> path" where
  "export_probe 0 E fs base bc cnt p = (False, p)"
| "export_probe (Suc fuel) E fs base bc cnt p =
     (case fs p of
        None \<Rightarrow> (False, p)
      | Some f \<Rightarrow>
          if GetFileSize f = length bc \<and> buffer_after_read (uninit_bytes E) f = bc then (True, p)
          else export_probe fuel E fs base bc (Suc cnt) (base @ ''_'' @ show_nat (Suc cnt) @ ''.bin''))"

definition export_orig_binary ::
  "globals \<Rightarrow> env \<Rightarrow> 64 word \<Rightarrow> string \<Rightarrow> bytes \<Rightarrow> filesystem \<Rightarrow> filesystem" where
  "export_orig_binary G E h shader_type bc fs =
     (let base = shader_file (SHADER_CACHE_PATH G) h shader_type [] in
      case export_probe 2147483647 E fs base bc 0 (base @ ''.bin'') of
        (True, _) \<Rightarrow> fs
      | (False, p) \<Rightarrow>
          if wfopen_ensuring_access E p then fs(p \<mapsto> written_file bc (write_time E p)) else fs)"

text \<open>
  \<^verbatim>\<open>set_file_last_write_time\<close> is declared outside this file; modelled from its use
  here: it stamps the file at the path with the given time.
\<close>

definition set_file_last_write_time :: "path \<Rightarrow> filetime \<Rightarrow> filesystem \<Rightarrow> filesystem" where
  "set_file_last_write_time p t fs =
     (case fs p of None \<Rightarrow> fs | Some f \<Rightarrow> fs(p \<mapsto> f\<lparr>f_time := Some t\<rparr>))"

text \<open>
  The cache write that stages two and three share: \<^verbatim>\<open>wfopen_ensuring_access\<close>,
  \<^verbatim>\<open>fwrite\<close>, \<^verbatim>\<open>fclose\<close>, then the time of the text source.
\<close>

definition store_cached_binary :: "env \<Rightarrow> path \<Rightarrow> bytes \<Rightarrow> filetime \<Rightarrow> filesystem \<Rightarrow> filesystem" where
  "store_cached_binary E p bc ft_write fs =
     (if wfopen_ensuring_access E p
      then set_file_last_write_time p ft_write (fs(p \<mapsto> written_file bc (write_time E p)))
      else fs)"

text \<open>
  The time that stages two and three read from the text source: the test is
  \<^verbatim>\<open>!ReadFile(...) || !GetFileTime(...) || size != read_size\<close>, so \<^verbatim>\<open>GetFileTime\<close> runs
  only after \<^verbatim>\<open>ReadFile\<close> returned \<^verbatim>\<open>TRUE\<close>, and \<^verbatim>\<open>ft_write\<close> is uninitialised otherwise.
\<close>

definition source_write_time :: "env \<Rightarrow> disk_file \<Rightarrow> filetime" where
  "source_write_time E f =
     (case f_read f of
        None \<Rightarrow> uninit_filetime E
      | Some _ \<Rightarrow> (case GetFileTime f of None \<Rightarrow> uninit_filetime E | Some t \<Rightarrow> t))"

section \<open>Recompiling and reassembling a text source\<close>

text \<open>
  \<^verbatim>\<open>replace_hlsl_shader\<close>. The function returns \<^verbatim>\<open>!!code\<close> on every path. A failed
  read is only logged: the compiler then gets what the buffer holds. The arguments
  of the compiler kept here are the source, the path, whether the standard include
  handler is used, and the shader model.
\<close>

definition replace_hlsl_shader ::
  "globals \<Rightarrow> env \<Rightarrow> 64 word \<Rightarrow> string \<Rightarrow> bytes \<Rightarrow> string option \<Rightarrow> outs \<Rightarrow> state
     \<Rightarrow> bool \<times> outs \<times> state" where
  "replace_hlsl_shader G E h shader_type shader_bytecode override_shader_model out s =
     (let p = shader_file (SHADER_PATH G) h shader_type ''_replace.txt'' in
      case files s p of
        None \<Rightarrow> (code out \<noteq> None, out, s)
      | Some f \<Rightarrow>
          let src_data = buffer_after_read (uninit_bytes E) f;
              ft_write = source_write_time E f;
              asm_shader_model = get_shader_model E shader_bytecode;
              s1 = emit (Disassemble shader_bytecode) s
          in if asm_shader_model = [] then (code out \<noteq> None, out, s1)
             else
               let out1 = out\<lparr>found_shader_model := asm_shader_model, time_stamp := ft_write,
                              header_line := utf8_first_line E src_data\<rparr>;
                   tmp_shader_model =
                     (case override_shader_model of Some m \<Rightarrow> m | None \<Rightarrow> asm_shader_model);
                   compiled_output =
                     fst (snd (D3DCompile E src_data p (recursive_include G = - 1) tmp_shader_model));
                   s2 = emit (Compile src_data tmp_shader_model) s1;
                   out2 = (case compiled_output of
                             Some c \<Rightarrow> out1\<lparr>code := Some c\<rparr>
                           | None \<Rightarrow> out1);
                   s3 = (case code out2 of
                           Some c \<Rightarrow>
                             if CACHE_SHADERS G
                             then s2\<lparr>files := store_cached_binary E
                                    (shader_file (SHADER_PATH G) h shader_type ''_replace.bin'')
                                    c ft_write (files s2)\<rparr>
                             else s2
                         | None \<Rightarrow> s2)
               in (code out2 \<noteq> None, out2, s3))"

text \<open>
  \<^verbatim>\<open>replace_asm_shader\<close>. The text is read into a \<^verbatim>\<open>vector<char>\<close>, which starts
  zeroed. An exception of the assembler is caught and leaves \<^verbatim>\<open>code\<close> as it was;
  parse errors keep the reassembled bytes, skip the cache and clear \<^verbatim>\<open>time_stamp\<close>.
\<close>

definition replace_asm_shader ::
  "globals \<Rightarrow> env \<Rightarrow> 64 word \<Rightarrow> string \<Rightarrow> bytes \<Rightarrow> outs \<Rightarrow> state \<Rightarrow> bool \<times> outs \<times> state" where
  "replace_asm_shader G E h shader_type shader_bytecode out s =
     (let p = shader_file (SHADER_PATH G) h shader_type ''.txt'' in
      case files s p of
        None \<Rightarrow> (code out \<noteq> None, out, s)
      | Some f \<Rightarrow>
          let asm_text_bytes = buffer_after_read (\<lambda>n. replicate n 0) f;
              ft_write = source_write_time E f;
              asm_shader_model = get_shader_model E shader_bytecode;
              s1 = emit (Disassemble shader_bytecode) s
          in if asm_shader_model = [] then (code out \<noteq> None, out, s1)
             else
               let out1 = out\<lparr>found_shader_model := asm_shader_model, time_stamp := ft_write,
                              header_line := utf8_first_line E asm_text_bytes\<rparr>;
                   s2 = emit (Assemble asm_text_bytes) s1
               in case assemble_flugan E asm_text_bytes (assemble_signature_comments G)
                         shader_bytecode of
                    Threw \<Rightarrow> (code out1 \<noteq> None, out1, s2)
                  | Assembled byte_code parse_errors \<Rightarrow>
                      if parse_errors = [] then
                        (True, out1\<lparr>code := Some byte_code\<rparr>,
                         if CACHE_SHADERS G
                         then s2\<lparr>files := store_cached_binary E
                                (shader_file (SHADER_PATH G) h shader_type ''.bin'')
                                byte_code ft_write (files s2)\<rparr>
                         else s2)
                      else (True, out1\<lparr>code := Some byte_code, time_stamp := 0\<rparr>, s2))"

section \<open>Decompiling and patching\<close>

text \<open>
  A write through a null \<^verbatim>\<open>FILE*\<close> makes the C runtime call its invalid-parameter
  handler, which ends the process: the one fault of the resolver.
\<close>

datatype fault = InvalidParameter

definition text_bytes :: "string \<Rightarrow> bytes" where
  "text_bytes cs = map (\<lambda>c. word_of_nat (of_char c)) cs"

definition newline :: string where
  "newline = [CHR 0x0A]"

text \<open>The literal lines that \<^verbatim>\<open>fprintf_s\<close> puts between the parts of the export file.\<close>

definition banner_original_asm :: bytes where
  "banner_original_asm = text_bytes
     (newline @
      newline @
      ''/*~~~~~~~~~~~~~~~~~~~~~~~~~~~~~ Original ASM ~~~~~~~~~~~~~~~~~~~~~~~~~~~~~~~~'' @
      newline)"

definition banner_close :: bytes where
  "banner_close = text_bytes
     (newline @
      ''//~~~~~~~~~~~~~~~~~~~~~~~~~~~~~~~~~~~~~~~~~~~~~~~~~~~~~~~~~~~~~~~~~~~~~~~~~*/'' @
      newline)"

definition banner_hlsl_errors :: bytes where
  "banner_hlsl_errors = text_bytes
     (newline @
      newline @
      ''/*~~~~~~~~~~~~~~~~~~~~~~~~~~~~ HLSL errors ~~~~~~~~~~~~~~~~~~~~~~~~~~~~~~~'' @
      newline)"

definition banner_errors_close :: bytes where
  "banner_errors_close = text_bytes
     (''~~~~~~~~~~~~~~~~~~~~~~~~~~~~~~~~~~~~~~~~~~~~~~~~~~~~~~~~~~~~~~~~~~~~~~~~~~~*/'' @
      newline)"

definition banner_recompiled_asm :: bytes where
  "banner_recompiled_asm = text_bytes
     (newline @
      newline @
      ''/*~~~~~~~~~~~~~~~~~~~~~~~~~~~~ Recompiled ASM ~~~~~~~~~~~~~~~~~~~~~~~~~~~~~~~'' @
      newline)"

text \<open>\<^verbatim>\<open>GetFileAttributes(p) != INVALID_FILE_ATTRIBUTES\<close>: something is at the path.\<close>

definition path_exists :: "filesystem \<Rightarrow> path \<Rightarrow> bool" where
  "path_exists fs p = (fs p \<noteq> None)"

text \<open>
  The end of \<^verbatim>\<open>decompile_and_possibly_patch_shader\<close>, from the optional disassembly
  of the recompiled shader on. \<open>fw\<close> is what has been written to the export file
  so far (\<open>None\<close>: no file was opened). \<^verbatim>\<open>GetFileTime\<close> is given the \<^verbatim>\<open>FILE*\<close>, not a
  handle, so \<^verbatim>\<open>ft_write\<close> stays uninitialised.
\<close>

definition finish_decompiled ::
  "globals \<Rightarrow> env \<Rightarrow> path \<Rightarrow> bytes option \<Rightarrow> bytes option \<Rightarrow> bool \<Rightarrow> string \<Rightarrow> outs \<Rightarrow> state
     \<Rightarrow> fault + (bool \<times> outs \<times> state)" where
  "finish_decompiled G E val fw compiled_output patched asm_shader_model out s =
     (let recompiled_asm =
            (case compiled_output of
               Some c \<Rightarrow>
                 if 3 \<le> sint (EXPORT_HLSL G) then Some (binary_to_asm_text E c (patch_cb_offsets G))
                 else None
             | None \<Rightarrow> None);
          s1 = (case compiled_output of
                  Some c \<Rightarrow> if 3 \<le> sint (EXPORT_HLSL G) then emit (Disassemble c) s else s
                | None \<Rightarrow> s);
          out1 = (case compiled_output of
                    Some c \<Rightarrow> if patched then out\<lparr>code := Some c\<rparr> else out
                  | None \<Rightarrow> out)
      in case fw of
           None \<Rightarrow>
             (case recompiled_asm of
                None \<Rightarrow> Inr (code out1 \<noteq> None, out1, s1)
              | Some asm_text \<Rightarrow>
                  if asm_text = [] then Inr (code out1 \<noteq> None, out1, s1)
                  else Inl InvalidParameter)
         | Some written \<Rightarrow>
             (let content =
                    (case recompiled_asm of
                       None \<Rightarrow> written
                     | Some asm_text \<Rightarrow>
                         if asm_text = [] then written
                         else written @ banner_recompiled_asm @ asm_text @ banner_close)
              in Inr (code out1 \<noteq> None,
                      out1\<lparr>found_shader_model := asm_shader_model,
                           time_stamp := uninit_filetime E\<rparr>,
                      s1\<lparr>files := (files s1)(val \<mapsto> written_file content (write_time E val))\<rparr>)))"

text \<open>
  The middle: the export file is opened when wanted, the decompiled source is
  recompiled, and the compiler's messages go to the log and to the export file.
\<close>

definition recompile_decompiled ::
  "globals \<Rightarrow> env \<Rightarrow> path \<Rightarrow> bytes \<Rightarrow> bytes \<Rightarrow> bool \<Rightarrow> string \<Rightarrow> string option \<Rightarrow> outs \<Rightarrow> state
     \<Rightarrow> fault + (bool \<times> outs \<times> state)" where
  "recompile_decompiled G E val asm_text decompiled_code patched asm_shader_model
       override_shader_model out s =
     (let want_file = (1 \<le> sint (EXPORT_HLSL G) \<or> (EXPORT_FIXED G \<and> patched)) in
      if want_file \<and> \<not> wfopen_ensuring_access E val then Inr (False, out, s)
      else
        let fw = (if want_file
                  then Some (decompiled_code @
                         (if 2 \<le> sint (EXPORT_HLSL G)
                          then banner_original_asm @ asm_text @ banner_close else []))
                  else None);
            tmp_shader_model =
              (case override_shader_model of Some m \<Rightarrow> m | None \<Rightarrow> asm_shader_model);
            compiled = D3DCompile E decompiled_code val True tmp_shader_model;
            compiled_output = fst (snd compiled);
            error_msgs = snd (snd compiled);
            s1 = emit (Compile decompiled_code tmp_shader_model) s
        in case (if LogFile G then error_msgs else None) of
             None \<Rightarrow>
               finish_decompiled G E val fw compiled_output patched asm_shader_model out s1
           | Some err_msg \<Rightarrow>
               (case fw of
                  None \<Rightarrow> Inl InvalidParameter
                | Some written \<Rightarrow>
                    finish_decompiled G E val
                      (Some (written @ banner_hlsl_errors @ butlast err_msg @ banner_errors_close))
                      compiled_output patched asm_shader_model out s1))"

text \<open>
  \<^verbatim>\<open>decompile_and_possibly_patch_shader\<close>. The early exits return \<^verbatim>\<open>NULL\<close>, the
  last line \<^verbatim>\<open>!!code\<close>. The decompiler gets the bytecode and its disassembly.
\<close>

definition decompile_and_possibly_patch_shader ::
  "globals \<Rightarrow> env \<Rightarrow> 64 word \<Rightarrow> bytes \<Rightarrow> string \<Rightarrow> string option \<Rightarrow> outs \<Rightarrow> state
     \<Rightarrow> fault + (bool \<times> outs \<times> state)" where
  "decompile_and_possibly_patch_shader G E h shader_bytecode shader_type override_shader_model
       out s =
     (if EXPORT_HLSL G = 0 \<and> \<not> fixSvPosition G \<and> \<not> recompileVs G then Inr (False, out, s)
      else if path_exists (files s) (shader_file (SHADER_PATH G) h shader_type ''_bad.txt'')
      then Inr (False, out, s)
      else
        let val = shader_file
                    (if 1 \<le> sint (EXPORT_HLSL G) then SHADER_CACHE_PATH G else SHADER_PATH G)
                    h shader_type ''_replace.txt''
        in if path_exists (files s) val then Inr (False, out, s)
           else
             let asm_text = binary_to_asm_text E shader_bytecode False;
                 s1 = emit (Disassemble shader_bytecode) s
             in if asm_text = [] then Inr (False, out, s1)
                else
                  case DecompileBinaryHLSL E shader_bytecode asm_text of
                    (decompiled_code, patched, asm_shader_model, error_occurred) \<Rightarrow>
                      let s2 = emit (Decompile shader_bytecode) s1
                      in if decompiled_code = [] \<or> error_occurred then Inr (False, out, s2)
                         else recompile_decompiled G E val asm_text decompiled_code patched
                                asm_shader_model override_shader_model out s2)"

section \<open>The resolver\<close>

text \<open>The file system as the lookups see it, after the two optional exports.\<close>

definition after_exports ::
  "globals \<Rightarrow> env \<Rightarrow> 64 word \<Rightarrow> string \<Rightarrow> bytes \<Rightarrow> state \<Rightarrow> state" where
  "after_exports G E h shader_type shader_bytecode s =
     (let s1 = (if EXPORT_BINARY G
                then s\<lparr>files := export_orig_binary G E h shader_type shader_bytecode (files s)\<rparr>
                else s)
      in if EXPORT_SHADERS G
         then s1\<lparr>files := create_asm_text_file E (SHADER_CACHE_PATH G) h shader_type
                              shader_bytecode (patch_cb_offsets G) (files s1)\<rparr>
         else s1)"

text \<open>
  \<^verbatim>\<open>_ReplaceShaderFromShaderFixes\<close> (a name cannot start with an underscore here).
  The result is the pointer returned, the reference parameters and the state.
\<close>

definition inner_ReplaceShaderFromShaderFixes ::
  "globals \<Rightarrow> env \<Rightarrow> 64 word \<Rightarrow> string \<Rightarrow> bytes \<Rightarrow> string \<Rightarrow> string option \<Rightarrow> state
     \<Rightarrow> fault + (bytes option \<times> outs \<times> state)" where
  "inner_ReplaceShaderFromShaderFixes G E h shader_type shader_bytecode header_line0
       override_shader_model s =
     (let out0 = \<lparr>code = None, found_shader_model = [], time_stamp = 0,
                  header_line = header_line0\<rparr>
      in if SHADER_PATH G = [] \<or> SHADER_CACHE_PATH G = [] then Inr (None, out0, s)
         else
           let s0 = after_exports G E h shader_type shader_bytecode s in
           case load_binary_shaders G E (files s0) h shader_type out0 of
             (True, out1) \<Rightarrow> Inr (code out1, out1, s0)
           | (False, out1) \<Rightarrow>
               (case replace_hlsl_shader G E h shader_type shader_bytecode override_shader_model
                       out1 s0 of
                  (True, out2, s2) \<Rightarrow> Inr (code out2, out2, s2)
                | (False, out2, s2) \<Rightarrow>
                    (case replace_asm_shader G E h shader_type shader_bytecode out2 s2 of
                       (True, out3, s3) \<Rightarrow> Inr (code out3, out3, s3)
                     | (False, out3, s3) \<Rightarrow>
                         (case decompile_and_possibly_patch_shader G E h shader_bytecode
                                 shader_type override_shader_model out3 s3 of
                            Inl e \<Rightarrow> Inl e
                          | Inr (True, out4, s4) \<Rightarrow> Inr (code out4, out4, s4)
                          | Inr (False, out4, s4) \<Rightarrow> Inr (None, out4, s4)))))"

section \<open>The reload registry and the retained originals\<close>

text \<open>
  \<^verbatim>\<open>register_for_reload\<close>: \<^verbatim>\<open>G->mReloadedShaders[shader]\<close> makes the entry if there is
  none, and every member is then assigned.
\<close>

definition register_for_reload ::
  "ptr \<Rightarrow> 64 word \<Rightarrow> string \<Rightarrow> string \<Rightarrow> ptr \<Rightarrow> ptr \<Rightarrow> filetime \<Rightarrow> string \<Rightarrow> bool \<Rightarrow> state
     \<Rightarrow> state" where
  "register_for_reload shader h shader_type shader_model class_linkage byte_code ts info
       deferred s =
     (let s1 = (if class_linkage \<noteq> nullptr then emit (AddRef class_linkage) s else s)
      in s1\<lparr>mReloadedShaders := (mReloadedShaders s1)(shader \<mapsto>
             \<lparr>hash = h, shaderType = shader_type, shaderModel = shader_model,
              linkage = class_linkage, byteCode = byte_code, timeStamp = ts,
              replacement = nullptr, infoText = info,
              deferred_replacement_candidate = deferred,
              deferred_replacement_processed = False\<rparr>)\<rparr>)"

text \<open>
  \<^verbatim>\<open>NeedOriginalShader\<close>; \<^verbatim>\<open>lookup_shaderoverride\<close> finds the hash in
  \<^verbatim>\<open>G->mShaderOverrideMap\<close>.
\<close>

definition NeedOriginalShader :: "globals \<Rightarrow> 64 word \<Rightarrow> bool" where
  "NeedOriginalShader G h =
     (if hunting G \<and>
         (marking_mode G = ORIGINAL \<or> config_reloadable G \<or> show_original_enabled G)
      then True
      else case mShaderOverrideMap G h of
             None \<Rightarrow> False
           | Some so \<Rightarrow>
               if depth_filter so = DEPTH_ACTIVE \<or> depth_filter so = DEPTH_INACTIVE then True
               else if partner_hash so \<noteq> 0 then True
               else False)"

text \<open>\<^verbatim>\<open>if (p) p->Release();\<close>\<close>

definition release_if_set :: "ptr \<Rightarrow> state \<Rightarrow> state" where
  "release_if_set p s = (if p \<noteq> nullptr then emit (Release p) s else s)"

text \<open>
  \<^verbatim>\<open>cleanup_shader_maps\<close>; the three lookups find the handle in the table. The
  retained original is released without a test.
\<close>

definition cleanup_shader_maps :: "ptr \<Rightarrow> state \<Rightarrow> state" where
  "cleanup_shader_maps handle s =
     (if handle = nullptr then s
      else
        let s1 = (case mShaders s handle of
                    None \<Rightarrow> s
                  | Some _ \<Rightarrow> s\<lparr>mShaders := (mShaders s)(handle := None)\<rparr>);
            s2 = (case mReloadedShaders s1 handle of
                    None \<Rightarrow> s1
                  | Some i \<Rightarrow>
                      (let r = release_if_set (linkage i)
                                 (release_if_set (byteCode i)
                                    (release_if_set (replacement i) s1))
                       in r\<lparr>mReloadedShaders := (mReloadedShaders r)(handle := None)\<rparr>))
        in case mOriginalShaders s2 handle of
             None \<Rightarrow> s2
           | Some original \<Rightarrow>
               (let r = emit (Release original) s2
                in r\<lparr>mOriginalShaders := (mOriginalShaders r)(handle := None)\<rparr>))"

section \<open>Creating a shader\<close>

text \<open>
  A call of the real device's creation function: the device answers with a result
  and the handle it writes to \<^verbatim>\<open>*ppShader\<close>.
\<close>

definition call_device ::
  "env \<Rightarrow> bytes option \<Rightarrow> nat \<Rightarrow> ptr \<Rightarrow> bool \<Rightarrow> state \<Rightarrow> hresult \<times> ptr \<times> state" where
  "call_device E bc len class_linkage has_out s =
     (case device_CreateShader E (trace s) bc len class_linkage has_out of
        (hr, p) \<Rightarrow> (hr, p, emit (OrigCreateShader bc len class_linkage has_out hr p) s))"

text \<open>\<^verbatim>\<open>D3DCreateBlob\<close> followed by the \<^verbatim>\<open>memcpy\<close> of the original bytecode when it succeeded.\<close>

definition create_blob :: "env \<Rightarrow> bytes \<Rightarrow> state \<Rightarrow> hresult \<times> ptr \<times> state" where
  "create_blob E bc s =
     (case D3DCreateBlob E (trace s) (length bc) of
        (hr, blob) \<Rightarrow>
          (let s1 = emit (CreateBlob (length bc) hr blob) s
           in (hr, blob, if SUCCEEDED hr then s1\<lparr>blobs := (blobs s1)(blob \<mapsto> bc)\<rparr> else s1)))"

definition KeepOriginalShader ::
  "globals \<Rightarrow> env \<Rightarrow> 64 word \<Rightarrow> string \<Rightarrow> ptr \<Rightarrow> bytes \<Rightarrow> ptr \<Rightarrow> state \<Rightarrow> state" where
  "KeepOriginalShader G E h shader_type shader shader_bytecode class_linkage s =
     (if \<not> NeedOriginalShader G h then s
      else
        case call_device E (Some shader_bytecode) (length shader_bytecode) class_linkage True s of
          (hr, original_shader, s1) \<Rightarrow>
            (let s2 = cleanup_shader_maps original_shader s1
             in if SUCCEEDED hr
                then s2\<lparr>mOriginalShaders := (mOriginalShaders s2)(shader \<mapsto> original_shader)\<rparr>
                else s2))"

text \<open>
  \<^verbatim>\<open>ReplaceShaderFromShaderFixes\<close>. It starts by looking up whether the user
  has overridden the shader model (\<open>user_shader_model\<close>). \<open>shader0\<close> is what
  \<^verbatim>\<open>*shader\<close> holds at the call; the result is the \<^verbatim>\<open>HRESULT\<close>, \<^verbatim>\<open>*shader\<close> and the
  state.
\<close>

definition user_shader_model :: "globals \<Rightarrow> 64 word \<Rightarrow> string option" where
  "user_shader_model G h =
     (case mShaderOverrideMap G h of
        None \<Rightarrow> None
      | Some so \<Rightarrow> if model so \<noteq> [] then Some (model so) else None)"

definition ReplaceShaderFromShaderFixes ::
  "globals \<Rightarrow> env \<Rightarrow> 64 word \<Rightarrow> bytes \<Rightarrow> ptr \<Rightarrow> ptr \<Rightarrow> string \<Rightarrow> state
     \<Rightarrow> fault + (hresult \<times> ptr \<times> state)" where
  "ReplaceShaderFromShaderFixes G E h shader_bytecode class_linkage shader0 shader_type s =
     (let override_shader_model = user_shader_model G h
      in case inner_ReplaceShaderFromShaderFixes G E h shader_type shader_bytecode []
                override_shader_model s of
           Inl e \<Rightarrow> Inl e
         | Inr (None, out, s1) \<Rightarrow> Inr (E_FAIL, shader0, s1)
         | Inr (Some replace_shader, out, s1) \<Rightarrow>
             (case call_device E (Some replace_shader) (length replace_shader) class_linkage
                     True s1 of
                (hr, shader, s2) \<Rightarrow>
                  if FAILED hr then Inr (hr, shader, s2)
                  else
                    let s3 = cleanup_shader_maps shader s2 in
                    if hunting G then
                      (case create_blob E shader_bytecode s3 of
                         (hr_blob, blob, s4) \<Rightarrow>
                           Inr (hr_blob, shader,
                                KeepOriginalShader G E h shader_type shader shader_bytecode
                                  class_linkage
                                  (if SUCCEEDED hr_blob
                                   then register_for_reload shader h shader_type
                                          (found_shader_model out) class_linkage blob
                                          (time_stamp out) (header_line out) False s4
                                   else s4)))
                    else Inr (hr, shader,
                              KeepOriginalShader G E h shader_type shader shader_bytecode
                                class_linkage s3)))"

text \<open>\<^verbatim>\<open>ProcessShaderNotFoundInShaderFixes\<close>.\<close>

definition ProcessShaderNotFoundInShaderFixes ::
  "globals \<Rightarrow> env \<Rightarrow> 64 word \<Rightarrow> bytes \<Rightarrow> ptr \<Rightarrow> string \<Rightarrow> state \<Rightarrow> hresult \<times> ptr \<times> state" where
  "ProcessShaderNotFoundInShaderFixes G E h shader_bytecode class_linkage shader_type s =
     (case call_device E (Some shader_bytecode) (length shader_bytecode) class_linkage True s of
        (hr, shader, s1) \<Rightarrow>
          if FAILED hr then (hr, shader, s1)
          else
            let s2 = cleanup_shader_maps shader s1 in
            if hunting G \<or> shader_regex_groups G \<noteq> [] then
              (case create_blob E shader_bytecode s2 of
                 (hr_blob, blob, s3) \<Rightarrow>
                   if SUCCEEDED hr_blob then
                     (let s4 = register_for_reload shader h shader_type ''bin'' class_linkage
                                 blob 0 [] True s3
                      in (hr_blob, shader,
                          case mOriginalShaders s4 shader of
                            None \<Rightarrow>
                              (let s5 = emit (AddRef shader) s4
                               in s5\<lparr>mOriginalShaders := (mOriginalShaders s5)(shader \<mapsto> shader)\<rparr>)
                          | Some _ \<Rightarrow> s4))
                   else (hr_blob, shader, s3))
            else (hr, shader, s2))"

text \<open>
  \<^verbatim>\<open>CreateShader\<close>. \<open>shader\<close> is \<open>None\<close> when \<^verbatim>\<open>ppShader\<close> is null and otherwise what
  \<^verbatim>\<open>*ppShader\<close> holds; \<open>shader_bytecode\<close> is \<open>None\<close> when the pointer is null and
  otherwise the \<^verbatim>\<open>bytecode_length\<close> bytes it points to. The result is the \<^verbatim>\<open>HRESULT\<close>,
  \<^verbatim>\<open>*ppShader\<close> and the state.
\<close>

definition CreateShader ::
  "globals \<Rightarrow> env \<Rightarrow> bytes option \<Rightarrow> nat \<Rightarrow> ptr \<Rightarrow> ptr option \<Rightarrow> string \<Rightarrow> state
     \<Rightarrow> fault + (hresult \<times> ptr option \<times> state)" where
  "CreateShader G E shader_bytecode bytecode_length class_linkage shader shader_type s =
     (case (shader, shader_bytecode) of
        (Some shader0, Some bc) \<Rightarrow>
          (let h = hash_shader E bc in
           case ReplaceShaderFromShaderFixes G E h bc class_linkage shader0 shader_type s of
             Inl e \<Rightarrow> Inl e
           | Inr (hr, p, s1) \<Rightarrow>
               (case (if hr \<noteq> S_OK
                      then ProcessShaderNotFoundInShaderFixes G E h bc class_linkage shader_type s1
                      else (hr, p, s1)) of
                  (hr2, p2, s2) \<Rightarrow>
                    Inr (hr2, Some p2,
                         if hr2 = S_OK then s2\<lparr>mShaders := (mShaders s2)(p2 \<mapsto> h)\<rparr> else s2)))
      | _ \<Rightarrow>
          (case call_device E shader_bytecode bytecode_length class_linkage (shader \<noteq> None) s of
             (hr, p, s1) \<Rightarrow> Inr (hr, map_option (\<lambda>_. p) shader, s1)))"

section \<open>Resource descriptions and override rules\<close>

text \<open>
  The description structures of \<^verbatim>\<open>d3d11.h\<close>. The members that the 2D and the 3D
  description share are one record, which both extend, so that the template
  \<^verbatim>\<open>override_resource_desc_common_2d_3d\<close> is one function on either.
\<close>

record desc_common =
  Usage :: "32 word"
  BindFlags :: "32 word"
  CPUAccessFlags :: "32 word"
  MiscFlags :: "32 word"

record D3D11_BUFFER_DESC = desc_common +
  ByteWidth :: "32 word"
  StructureByteStride :: "32 word"

record D3D11_TEXTURE1D_DESC = desc_common +
  Width1D :: "32 word"
  MipLevels1D :: "32 word"
  ArraySize1D :: "32 word"
  Format1D :: "32 word"

record desc_2d_3d = desc_common +
  Width :: "32 word"
  Height :: "32 word"
  MipLevels :: "32 word"
  Format :: "32 word"

record D3D11_TEXTURE2D_DESC = desc_2d_3d +
  ArraySize :: "32 word"
  SampleDesc_Count :: "32 word"
  SampleDesc_Quality :: "32 word"

record D3D11_TEXTURE3D_DESC = desc_2d_3d +
  Depth :: "32 word"

text \<open>The \<^verbatim>\<open>DescType\<close> of the templates.\<close>

datatype resource_desc =
    BufferDesc D3D11_BUFFER_DESC
  | Texture1DDesc D3D11_TEXTURE1D_DESC
  | Texture2DDesc D3D11_TEXTURE2D_DESC
  | Texture3DDesc D3D11_TEXTURE3D_DESC

text \<open>The enumeration \<^verbatim>\<open>D3D11_USAGE\<close> of \<^verbatim>\<open>d3d11.h\<close>.\<close>

definition D3D11_USAGE_DEFAULT :: "32 word" where
  "D3D11_USAGE_DEFAULT = 0"

definition D3D11_USAGE_IMMUTABLE :: "32 word" where
  "D3D11_USAGE_IMMUTABLE = 1"

definition D3D11_USAGE_DYNAMIC :: "32 word" where
  "D3D11_USAGE_DYNAMIC = 2"


text \<open>
  The members of \<^verbatim>\<open>texture_override\<close> (declared outside this file) that are read
  here. The two multipliers are \<^verbatim>\<open>float\<close>s, kept as their 32 bits. \<open>iterations\<close> is
  the \<^verbatim>\<open>vector<int>\<close>: its first element is the running counter, the rest the
  configured iterations.
\<close>

record texture_override =
  format :: cint
  width :: cint
  height :: cint
  width_multiply :: "32 word"
  height_multiply :: "32 word"
  stereoMode :: cint
  iterations :: "cint list"

text \<open>The bits of \<^verbatim>\<open>1.0f\<close>, the only \<^verbatim>\<open>float\<close> that compares equal to it.\<close>

definition float_one :: "32 word" where
  "float_one = 0x3F800000"

text \<open>
  The collaborators of the resource path: the rule matcher (it returns pointers to
  rules, here their indices in the rule store, lower priority first), the
  \<^verbatim>\<open>float\<close> product \<^verbatim>\<open>static_cast<UINT>(dimension * multiplier)\<close>, whether the stereo
  driver serves calls on a handle, and the real device's creation call.
\<close>

datatype resource_event =
    LockMode
  | UnlockMode
  | GetSurfaceCreationMode ptr
  | SetSurfaceCreationMode ptr cint
  | OrigCreateResource "resource_desc option" hresult

record resource_env =
  find_texture_overrides :: "32 word \<Rightarrow> resource_desc option \<Rightarrow> nat list"
  float_scale :: "32 word \<Rightarrow> 32 word \<Rightarrow> 32 word"
  nvapi_serves :: "ptr \<Rightarrow> bool"
  device_CreateResource :: "resource_event list \<Rightarrow> resource_desc option \<Rightarrow> hresult"

text \<open>
  What the resource path changes: the rules (their counters), the driver's
  process-wide surface creation mode, how often this thread holds the critical
  section behind \<^verbatim>\<open>LOCK_RESOURCE_CREATION_MODE\<close>, and the record of outside calls.
\<close>

record resource_state =
  rules :: "nat \<Rightarrow> texture_override"
  surface_creation_mode :: cint
  mode_lock_held :: nat
  calls :: "resource_event list"

definition note_call :: "resource_event \<Rightarrow> resource_state \<Rightarrow> resource_state" where
  "note_call e s = s\<lparr>calls := calls s @ [e]\<rparr>"

section \<open>Matching override rules\<close>

text \<open>The \<^verbatim>\<open>while\<close> loop of \<^verbatim>\<open>check_texture_override_iteration\<close> over the configured part.\<close>

fun iteration_listed :: "cint \<Rightarrow> cint list \<Rightarrow> bool" where
  "iteration_listed current_iteration [] = False"
| "iteration_listed current_iteration (k # ks) =
     (if current_iteration = k then True else iteration_listed current_iteration ks)"

text \<open>
  \<^verbatim>\<open>check_texture_override_iteration\<close>: the verdict and the rule with its counter
  incremented. The \<^verbatim>\<open>int\<close> addition wraps here, as the compiled code does.
\<close>

definition check_texture_override_iteration :: "texture_override \<Rightarrow> bool \<times> texture_override" where
  "check_texture_override_iteration r =
     (case iterations r of
        [] \<Rightarrow> (True, r)
      | counter # configured \<Rightarrow>
          (let current_iteration = counter + 1
           in (iteration_listed current_iteration configured,
               r\<lparr>iterations := current_iteration # configured\<rparr>)))"

text \<open>The specialisation of \<^verbatim>\<open>is_square_surface\<close> for 2D, and the template for the rest.\<close>

definition is_square_surface :: "globals \<Rightarrow> resource_desc option \<Rightarrow> bool" where
  "is_square_surface G desc =
     (case desc of
        Some (Texture2DDesc d) \<Rightarrow>
          0 \<le> sint (gSurfaceSquareCreateMode G) \<and> Width d = Height d
          \<and> Usage d AND D3D11_USAGE_IMMUTABLE = 0
      | _ \<Rightarrow> False)"

definition override_resource_desc_common_2d_3d ::
  "(32 word \<Rightarrow> 32 word \<Rightarrow> 32 word) \<Rightarrow> 'a desc_2d_3d_scheme \<Rightarrow> texture_override
     \<Rightarrow> 'a desc_2d_3d_scheme" where
  "override_resource_desc_common_2d_3d scale desc r =
     (let d1 = (if format r \<noteq> - 1 then desc\<lparr>Format := format r\<rparr> else desc);
          d2 = (if width r \<noteq> - 1 then d1\<lparr>Width := width r\<rparr> else d1);
          d3 = (if width_multiply r \<noteq> float_one
                then d2\<lparr>Width := scale (Width d2) (width_multiply r)\<rparr> else d2);
          d4 = (if height r \<noteq> - 1 then d3\<lparr>Height := height r\<rparr> else d3)
      in if height_multiply r \<noteq> float_one
         then d4\<lparr>Height := scale (Height d4) (height_multiply r)\<rparr> else d4)"

definition override_resource_desc ::
  "(32 word \<Rightarrow> 32 word \<Rightarrow> 32 word) \<Rightarrow> resource_desc \<Rightarrow> texture_override \<Rightarrow> resource_desc" where
  "override_resource_desc scale desc r =
     (case desc of
        BufferDesc d \<Rightarrow> BufferDesc d
      | Texture1DDesc d \<Rightarrow> Texture1DDesc d
      | Texture2DDesc d \<Rightarrow> Texture2DDesc (override_resource_desc_common_2d_3d scale d r)
      | Texture3DDesc d \<Rightarrow> Texture3DDesc (override_resource_desc_common_2d_3d scale d r))"

text \<open>
  One round of the \<^verbatim>\<open>for\<close> loop of \<^verbatim>\<open>process_texture_override\<close>, on the rule store,
  \<^verbatim>\<open>new_mode\<close> and \<^verbatim>\<open>*new_desc\<close>; then the loop.
\<close>

definition apply_match ::
  "(32 word \<Rightarrow> 32 word \<Rightarrow> 32 word) \<Rightarrow> nat
     \<Rightarrow> (nat \<Rightarrow> texture_override) \<times> cint \<times> resource_desc
     \<Rightarrow> (nat \<Rightarrow> texture_override) \<times> cint \<times> resource_desc" where
  "apply_match scale m acc =
     (case acc of
        (rs, new_mode, new_desc) \<Rightarrow>
          (case check_texture_override_iteration (rs m) of
             (False, r) \<Rightarrow> (rs(m := r), new_mode, new_desc)
           | (True, r) \<Rightarrow>
               (rs(m := r),
                if stereoMode r \<noteq> - 1 then stereoMode r else new_mode,
                override_resource_desc scale new_desc r)))"

fun apply_matches ::
  "(32 word \<Rightarrow> 32 word \<Rightarrow> 32 word) \<Rightarrow> nat list
     \<Rightarrow> (nat \<Rightarrow> texture_override) \<times> cint \<times> resource_desc
     \<Rightarrow> (nat \<Rightarrow> texture_override) \<times> cint \<times> resource_desc" where
  "apply_matches scale [] acc = acc"
| "apply_matches scale (m # ms) acc = apply_matches scale ms (apply_match scale m acc)"

section \<open>The surface creation mode around one creation\<close>

text \<open>
  The two driver calls, made through \<^verbatim>\<open>profiling::\<close> wrappers declared outside this
  file. A call that the driver does not serve changes nothing and writes nothing;
  the source tests neither result beyond logging.
\<close>

definition NvAPI_Stereo_GetSurfaceCreationMode ::
  "resource_env \<Rightarrow> ptr \<Rightarrow> cint \<Rightarrow> resource_state \<Rightarrow> cint \<times> resource_state" where
  "NvAPI_Stereo_GetSurfaceCreationMode E stereo_handle old_mode s =
     (if nvapi_serves E stereo_handle then surface_creation_mode s else old_mode,
      note_call (GetSurfaceCreationMode stereo_handle) s)"

definition NvAPI_Stereo_SetSurfaceCreationMode ::
  "resource_env \<Rightarrow> ptr \<Rightarrow> cint \<Rightarrow> resource_state \<Rightarrow> resource_state" where
  "NvAPI_Stereo_SetSurfaceCreationMode E stereo_handle new_mode s =
     note_call (SetSurfaceCreationMode stereo_handle new_mode)
       (if nvapi_serves E stereo_handle then s\<lparr>surface_creation_mode := new_mode\<rparr> else s)"

definition LOCK_RESOURCE_CREATION_MODE :: "resource_state \<Rightarrow> resource_state" where
  "LOCK_RESOURCE_CREATION_MODE s = note_call LockMode (s\<lparr>mode_lock_held := Suc (mode_lock_held s)\<rparr>)"

definition UNLOCK_RESOURCE_CREATION_MODE :: "resource_state \<Rightarrow> resource_state" where
  "UNLOCK_RESOURCE_CREATION_MODE s = note_call UnlockMode (s\<lparr>mode_lock_held := mode_lock_held s - 1\<rparr>)"

text \<open>
  The mode that \<^verbatim>\<open>process_texture_override\<close> decides, with the rules and the
  description after the loop: \<^verbatim>\<open>new_mode\<close> starts at \<open>-1\<close>, takes the square-surface
  default, and the loop runs when the description is not null and a rule matched.
\<close>

definition decide_override ::
  "globals \<Rightarrow> resource_env \<Rightarrow> 32 word \<Rightarrow> resource_desc option \<Rightarrow> (nat \<Rightarrow> texture_override)
     \<Rightarrow> (nat \<Rightarrow> texture_override) \<times> cint \<times> resource_desc option" where
  "decide_override G E h orig_desc rs =
     (let new_mode = (if is_square_surface G orig_desc then gSurfaceSquareCreateMode G else - 1);
          matches = find_texture_overrides E h orig_desc
      in case orig_desc of
           None \<Rightarrow> (rs, new_mode, None)
         | Some d \<Rightarrow>
             if matches = [] then (rs, new_mode, orig_desc)
             else
               (case apply_matches (float_scale E) matches (rs, new_mode, d) of
                  (rs1, new_mode1, new_desc) \<Rightarrow> (rs1, new_mode1, Some new_desc)))"

text \<open>
  \<^verbatim>\<open>process_texture_override\<close>: the result is the description to create with,
  \<^verbatim>\<open>*old_mode\<close> and the state. It returns holding the lock.
\<close>

definition process_texture_override ::
  "globals \<Rightarrow> resource_env \<Rightarrow> 32 word \<Rightarrow> ptr \<Rightarrow> resource_desc option \<Rightarrow> resource_state
     \<Rightarrow> resource_desc option \<times> cint \<times> resource_state" where
  "process_texture_override G E h stereo_handle orig_desc s =
     (case decide_override G E h orig_desc (rules s) of
        (rs, new_mode, ret) \<Rightarrow>
          (let s1 = LOCK_RESOURCE_CREATION_MODE (s\<lparr>rules := rs\<rparr>)
           in if new_mode \<noteq> - 1 then
                (case NvAPI_Stereo_GetSurfaceCreationMode E stereo_handle (- 1) s1 of
                   (old_mode, s2) \<Rightarrow>
                     (ret, old_mode, NvAPI_Stereo_SetSurfaceCreationMode E stereo_handle new_mode s2))
              else (ret, - 1, s1)))"

definition restore_old_surface_create_mode ::
  "resource_env \<Rightarrow> cint \<Rightarrow> ptr \<Rightarrow> resource_state \<Rightarrow> resource_state" where
  "restore_old_surface_create_mode E old_mode stereo_handle s =
     UNLOCK_RESOURCE_CREATION_MODE
       (if old_mode \<noteq> - 1 then NvAPI_Stereo_SetSurfaceCreationMode E stereo_handle old_mode s
        else s)"

text \<open>
  What \<^verbatim>\<open>CreateBuffer\<close>, \<^verbatim>\<open>CreateTexture1D\<close>, \<^verbatim>\<open>CreateTexture2D\<close> and
  \<^verbatim>\<open>CreateTexture3D\<close> do between the hash and the bookkeeping of the new resource:
  \<^verbatim>\<open>process_texture_override\<close>, the real creation, \<^verbatim>\<open>restore_old_surface_create_mode\<close>.
  The hash functions are outside this file, so the hash is a parameter; the
  bookkeeping after the creation touches none of this state.
\<close>

definition create_with_override ::
  "globals \<Rightarrow> resource_env \<Rightarrow> 32 word \<Rightarrow> ptr \<Rightarrow> resource_desc option \<Rightarrow> resource_state
     \<Rightarrow> hresult \<times> resource_state" where
  "create_with_override G E h stereo_handle desc s =
     (case process_texture_override G E h stereo_handle desc s of
        (new_desc_ptr, old_mode, s1) \<Rightarrow>
          (let hr = device_CreateResource E (calls s1) new_desc_ptr;
               s2 = note_call (OrigCreateResource new_desc_ptr hr) s1
           in (hr, restore_old_surface_create_mode E old_mode stereo_handle s2)))"

definition CreateBuffer ::
  "globals \<Rightarrow> resource_env \<Rightarrow> 32 word \<Rightarrow> ptr \<Rightarrow> D3D11_BUFFER_DESC option \<Rightarrow> resource_state
     \<Rightarrow> hresult \<times> resource_state" where
  "CreateBuffer G E h stereo_handle pDesc s =
     create_with_override G E h stereo_handle (map_option BufferDesc pDesc) s"

definition CreateTexture1D ::
  "globals \<Rightarrow> resource_env \<Rightarrow> 32 word \<Rightarrow> ptr \<Rightarrow> D3D11_TEXTURE1D_DESC option \<Rightarrow> resource_state
     \<Rightarrow> hresult \<times> resource_state" where
  "CreateTexture1D G E h stereo_handle pDesc s =
     create_with_override G E h stereo_handle (map_option Texture1DDesc pDesc) s"


definition CreateTexture3D ::
  "globals \<Rightarrow> resource_env \<Rightarrow> 32 word \<Rightarrow> ptr \<Rightarrow> D3D11_TEXTURE3D_DESC option \<Rightarrow> resource_state
     \<Rightarrow> hresult \<times> resource_state" where
  "CreateTexture3D G E h stereo_handle pDesc s =
     create_with_override G E h stereo_handle (map_option Texture3DDesc pDesc) s"

section \<open>Successive attempts against one rule\<close>



section \<open>The references that an eviction releases\<close>


section \<open>The order of the sources\<close>

text \<open>
  The resolver as the specification words it: candidate sources attempted in a
  fixed order, short-circuiting on the first success. A source gets the reference
  parameters and the state and tells whether it produced \<^verbatim>\<open>code\<close>; when none
  does, there is no substitute.
\<close>

type_synonym stage = "outs \<Rightarrow> state \<Rightarrow> fault + (bool \<times> outs \<times> state)"

fun first_success :: "stage list \<Rightarrow> outs \<Rightarrow> state \<Rightarrow> fault + (bytes option \<times> outs \<times> state)" where
  "first_success [] out s = Inr (None, out, s)"
| "first_success (try_source # later) out s =
     (case try_source out s of
        Inl e \<Rightarrow> Inl e
      | Inr (True, out1, s1) \<Rightarrow> Inr (code out1, out1, s1)
      | Inr (False, out1, s1) \<Rightarrow> first_success later out1 s1)"

text \<open>One call of \<^verbatim>\<open>load_cached_shader\<close> as a source; it changes nothing but its results.\<close>

definition cached_binary_stage :: "env \<Rightarrow> path \<Rightarrow> stage" where
  "cached_binary_stage E p out s =
     Inr (case load_cached_shader E (files s) p out of (found, out1) \<Rightarrow> (found, out1, s))"

text \<open>
  The five sources in the order of the specification: the cached \<^verbatim>\<open>_replace.bin\<close>,
  the plain cached \<^verbatim>\<open>.bin\<close>, recompiling the high-level source, reassembling the
  assembly source, decompiling and patching.
\<close>

definition resolution_stages ::
  "globals \<Rightarrow> env \<Rightarrow> 64 word \<Rightarrow> string \<Rightarrow> bytes \<Rightarrow> string option \<Rightarrow> stage list" where
  "resolution_stages G E h shader_type shader_bytecode override_shader_model =
     [cached_binary_stage E (shader_file (SHADER_PATH G) h shader_type ''_replace.bin''),
      cached_binary_stage E (shader_file (SHADER_PATH G) h shader_type ''.bin''),
      (\<lambda>out s. Inr (replace_hlsl_shader G E h shader_type shader_bytecode override_shader_model
                       out s)),
      (\<lambda>out s. Inr (replace_asm_shader G E h shader_type shader_bytecode out s)),
      decompile_and_possibly_patch_shader G E h shader_bytecode shader_type override_shader_model]"

section \<open>Sample inputs\<close>

text \<open>
  Concrete collaborators and files, on which the theorems below are run: a compiler
  that fails, an assembler that throws, a device that creates handle 1.
\<close>

definition E_OUTOFMEMORY :: hresult where
  "E_OUTOFMEMORY = 0x8007000E"

definition env0 :: env where
  "env0 = \<lparr> uninit_bytes = (\<lambda>n. replicate n 0), uninit_filetime = 0,
     hash_shader = (\<lambda>_. 0xABCD), get_shader_model = (\<lambda>_. ''vs_5_0''),
     binary_to_asm_text = (\<lambda>_ _. []), D3DCompile = (\<lambda>_ _ _ _. (E_FAIL, None, None)),
     assemble_flugan = (\<lambda>_ _ _. Threw), DecompileBinaryHLSL = (\<lambda>_ _. ([], False, [], True)),
     utf8_first_line = (\<lambda>_. []), wfopen_ensuring_access = (\<lambda>_. False),
     write_time = (\<lambda>_. 0), create_asm_text_file = (\<lambda>_ _ _ _ _ fs. fs),
     device_CreateShader = (\<lambda>_ _ _ _ _. (S_OK, 1)), D3DCreateBlob = (\<lambda>_ _. (S_OK, 2)) \<rparr>"

definition out0 :: outs where
  "out0 = \<lparr>code = None, found_shader_model = [], time_stamp = 0, header_line = []\<rparr>"

definition fixes_replace_bin :: path where
  "fixes_replace_bin = shader_file ''ShaderFixes'' 0xABCD ''vs'' ''_replace.bin''"

definition fixes_replace_txt :: path where
  "fixes_replace_txt = shader_file ''ShaderFixes'' 0xABCD ''vs'' ''_replace.txt''"

text \<open>A binary and its text source with the same time; the binary reads in full.\<close>

definition fs_fresh :: filesystem where
  "fs_fresh = [fixes_replace_bin \<mapsto> written_file [1, 2, 3] 5,
               fixes_replace_txt \<mapsto> written_file [7] 5]"



text \<open>Settings with every export and hunting off, and two directories.\<close>

definition G0 :: globals where
  "G0 = \<lparr>SHADER_PATH = ''ShaderFixes'', SHADER_CACHE_PATH = ''ShaderCache'',
     EXPORT_BINARY = False, EXPORT_SHADERS = False, EXPORT_HLSL = 0, EXPORT_FIXED = False,
     CACHE_SHADERS = False, fixSvPosition = False, recompileVs = False,
     patch_cb_offsets = False, assemble_signature_comments = False, recursive_include = 0,
     LogFile = False, hunting = False, marking_mode = SKIP, config_reloadable = False,
     show_original_enabled = False, mShaderOverrideMap = Map.empty,
     shader_regex_groups = [], gSurfaceSquareCreateMode = - 1\<rparr>"

definition state0 :: state where
  "state0 = \<lparr>files = Map.empty, mShaders = Map.empty, mReloadedShaders = Map.empty,
     mOriginalShaders = Map.empty, blobs = Map.empty, trace = []\<rparr>"







definition G_reload_only :: globals where
  "G_reload_only = G0\<lparr>config_reloadable := True\<rparr>"

text \<open>Hunting enabled, and a \<^verbatim>\<open>D3DCreateBlob\<close> that runs out of memory.\<close>

definition G_hunting :: globals where
  "G_hunting = G0\<lparr>hunting := True\<rparr>"

definition env_no_memory :: env where
  "env_no_memory = env0\<lparr>D3DCreateBlob := (\<lambda>_ _. (E_OUTOFMEMORY, 0))\<rparr>"






definition fixes_bad :: path where
  "fixes_bad = shader_file ''ShaderFixes'' 0xABCD ''vs'' ''_bad.txt''"

definition state_bad :: state where
  "state_bad = state0\<lparr>files := [fixes_bad \<mapsto> written_file [] 5]\<rparr>"

definition state_bad_fresh :: state where
  "state_bad_fresh = state0\<lparr>files := fs_fresh(fixes_bad \<mapsto> written_file [] 5)\<rparr>"


definition G_export_hlsl :: globals where
  "G_export_hlsl = G0\<lparr>EXPORT_HLSL := 1\<rparr>"

section \<open>Evaluating the sample paths\<close>

lemma hex16_abcd: "hex16 0xABCD = ''000000000000abcd''"
  by code_simp

lemma txt_path_of_fixes_replace_bin: "txt_path_of fixes_replace_bin = fixes_replace_txt"
  by (simp add: txt_path_of_def fixes_replace_bin_def fixes_replace_txt_def shader_file_def
      hex16_abcd backslash_def)

lemma fixes_replace_bin_neq_txt: "fixes_replace_bin \<noteq> fixes_replace_txt"
  by (simp add: fixes_replace_bin_def fixes_replace_txt_def shader_file_def)

section \<open>The timestamp of a cached binary\<close>




section \<open>Keeping the original shader\<close>

text \<open>
  Claim C8, as amended. \<^verbatim>\<open>NeedOriginalShader\<close> is true exactly when hunting is enabled
  and the marking mode is "original", reload support is enabled or showing the
  original is enabled; or the override of this hash has a depth filter "active" or
  "inactive"; or the override of this hash names a partner hash.
\<close>

theorem NeedOriginalShader_exactly:
  "NeedOriginalShader G h \<longleftrightarrow>
     (hunting G \<and> (marking_mode G = ORIGINAL \<or> config_reloadable G \<or> show_original_enabled G))
     \<or> (\<exists>so. mShaderOverrideMap G h = Some so
           \<and> (depth_filter so = DEPTH_ACTIVE \<or> depth_filter so = DEPTH_INACTIVE
               \<or> partner_hash so \<noteq> 0))"
  by (auto simp: NeedOriginalShader_def split: option.splits)

text \<open>
  Claim C8 as stated fails: with reload support enabled, hunting disabled and no
  override, the original is not kept.
\<close>

theorem reload_support_without_hunting:
  "config_reloadable G_reload_only \<and> \<not> hunting G_reload_only
   \<and> \<not> NeedOriginalShader G_reload_only 0xABCD"
  by (simp add: NeedOriginalShader_def G_reload_only_def G0_def)

section \<open>The iteration gate\<close>







section \<open>The surface creation mode is scoped to one creation\<close>






section \<open>A creation call with a null pointer\<close>

text \<open>
  Claim C10. When the output pointer or the bytecode pointer is null, the call is
  handed to the real device with the arguments as they came, the device's result is
  the result, and nothing else happens: the state is the old one but for the record
  of that one call. The hash, the resolver and the tables are not involved.
\<close>

theorem CreateShader_null_forwarded:
  assumes "shader = None \<or> shader_bytecode = None"
  shows "CreateShader G E shader_bytecode bytecode_length class_linkage shader shader_type s =
           Inr (fst (device_CreateShader E (trace s) shader_bytecode bytecode_length class_linkage
                       (shader \<noteq> None)),
                map_option
                  (\<lambda>_. snd (device_CreateShader E (trace s) shader_bytecode bytecode_length
                               class_linkage (shader \<noteq> None)))
                  shader,
                s\<lparr>trace := trace s @
                   [OrigCreateShader shader_bytecode bytecode_length class_linkage (shader \<noteq> None)
                      (fst (device_CreateShader E (trace s) shader_bytecode bytecode_length
                              class_linkage (shader \<noteq> None)))
                      (snd (device_CreateShader E (trace s) shader_bytecode bytecode_length
                              class_linkage (shader \<noteq> None)))]\<rparr>)"
  using assms
  by (auto simp: CreateShader_def call_device_def emit_def split: option.splits prod.splits)

theorem CreateShader_null_forwarded_witness:
  "CreateShader G0 env0 None 3 0 (Some 0) ''vs'' state0 =
     Inr (S_OK, Some 1, state0\<lparr>trace := [OrigCreateShader None 3 0 True S_OK 1]\<rparr>)
   \<and> CreateShader G0 env0 (Some [1, 2, 3]) 3 0 None ''vs'' state0 =
     Inr (S_OK, None, state0\<lparr>trace := [OrigCreateShader (Some [1, 2, 3]) 3 0 False S_OK 1]\<rparr>)"
  using CreateShader_null_forwarded [of "Some 0" None G0 env0 3 0 "''vs''" state0]
    CreateShader_null_forwarded [of None "Some [1, 2, 3]" G0 env0 3 0 "''vs''" state0]
  by (simp add: env0_def state0_def)

section \<open>The square-surface default and staging surfaces\<close>


text \<open>
  For the usages \<^verbatim>\<open>DEFAULT\<close> and \<^verbatim>\<open>DYNAMIC\<close> the default is taken, before the rules; no
  other kind of resource, and no 2D surface that is not square or is immutable,
  takes it; and a rule that passes its gate and sets a stereo mode replaces it.
\<close>

lemma square_default_for_default_and_dynamic:
  assumes "Usage d = D3D11_USAGE_DEFAULT \<or> Usage d = D3D11_USAGE_DYNAMIC"
    and "Width d = Height d" and "0 \<le> sint (gSurfaceSquareCreateMode G)"
  shows "is_square_surface G (Some (Texture2DDesc d))"
    and "find_texture_overrides E h (Some (Texture2DDesc d)) = [] \<Longrightarrow>
         decide_override G E h (Some (Texture2DDesc d)) rs =
           (rs, gSurfaceSquareCreateMode G, Some (Texture2DDesc d))"
  using assms
  by (auto simp: is_square_surface_def decide_override_def D3D11_USAGE_DEFAULT_def
      D3D11_USAGE_DYNAMIC_def D3D11_USAGE_IMMUTABLE_def Let_def)

lemma no_square_default_elsewhere:
  "\<not> is_square_surface G None"
  "\<not> is_square_surface G (Some (BufferDesc b))"
  "\<not> is_square_surface G (Some (Texture1DDesc t1))"
  "\<not> is_square_surface G (Some (Texture3DDesc t3))"
  "Width d \<noteq> Height d \<Longrightarrow> \<not> is_square_surface G (Some (Texture2DDesc d))"
  "Usage d = D3D11_USAGE_IMMUTABLE \<Longrightarrow> \<not> is_square_surface G (Some (Texture2DDesc d))"
  by (simp_all add: is_square_surface_def D3D11_USAGE_IMMUTABLE_def)

lemma passing_rule_overrides_mode:
  assumes "check_texture_override_iteration (rs m) = (True, r)" and "stereoMode r \<noteq> - 1"
  shows "fst (snd (apply_match scale m (rs, new_mode, new_desc))) = stereoMode r"
  using assms by (simp add: apply_match_def)

section \<open>A creation whose bookkeeping fails\<close>

lemma no_substitute_without_files:
  "inner_ReplaceShaderFromShaderFixes G_hunting E 0xABCD ''vs'' bc [] None state0 =
     Inr (None, out0, state0)"
  by (simp add: inner_ReplaceShaderFromShaderFixes_def G_hunting_def G0_def state0_def
      after_exports_def load_binary_shaders_def load_cached_shader_def replace_hlsl_shader_def
      replace_asm_shader_def decompile_and_possibly_patch_shader_def out0_def Let_def)

text \<open>
  Claim C4 at a failing input: hunting is enabled, nothing is found for the hash, the
  real device creates the shader from the original bytecode and returns \<^verbatim>\<open>S_OK\<close>,
  and \<^verbatim>\<open>D3DCreateBlob\<close> fails. \<^verbatim>\<open>ProcessShaderNotFoundInShaderFixes\<close> stores the
  blob's result in the variable it returns, so the caller gets \<^verbatim>\<open>E_OUTOFMEMORY\<close>
  with the created handle, not the result of the creation.
\<close>

theorem blob_failure_returned_for_created_shader:
  "CreateShader G_hunting env_no_memory (Some [1, 2, 3]) 3 0 (Some 0) ''vs'' state0 =
     Inr (E_OUTOFMEMORY, Some 1,
          state0\<lparr>trace := [OrigCreateShader (Some [1, 2, 3]) 3 0 True S_OK 1,
                            CreateBlob 3 E_OUTOFMEMORY 0]\<rparr>)
   \<and> FAILED E_OUTOFMEMORY \<and> \<not> FAILED S_OK"
proof -
  have ov: "mShaderOverrideMap G_hunting 0xABCD = None"
    by (simp add: G_hunting_def G0_def)
  have hs: "hash_shader env_no_memory [1, 2, 3] = 0xABCD"
    by (simp add: env_no_memory_def env0_def)
  have r: "ReplaceShaderFromShaderFixes G_hunting env_no_memory 0xABCD [1, 2, 3] 0 0 ''vs'' state0 =
             Inr (E_FAIL, 0, state0)"
    by (simp add: ReplaceShaderFromShaderFixes_def user_shader_model_def
        no_substitute_without_files ov)
  have p: "ProcessShaderNotFoundInShaderFixes G_hunting env_no_memory 0xABCD [1, 2, 3] 0 ''vs''
             state0 =
           (E_OUTOFMEMORY, 1,
            state0\<lparr>trace := [OrigCreateShader (Some [1, 2, 3]) 3 0 True S_OK 1,
                              CreateBlob 3 E_OUTOFMEMORY 0]\<rparr>)"
    by (simp add: ProcessShaderNotFoundInShaderFixes_def call_device_def env_no_memory_def
        env0_def emit_def state0_def FAILED_def S_OK_def cleanup_shader_maps_def nullptr_def
        G_hunting_def G0_def create_blob_def SUCCEEDED_def E_OUTOFMEMORY_def Let_def)
  have f: "E_FAIL \<noteq> S_OK" "E_OUTOFMEMORY \<noteq> S_OK" "FAILED E_OUTOFMEMORY" "\<not> FAILED S_OK"
    by (simp_all add: E_FAIL_def S_OK_def E_OUTOFMEMORY_def FAILED_def)
  show ?thesis
    by (simp add: CreateShader_def hs r p f)
qed

text \<open>
  When the creation itself fails, or nothing is registered for reloading, the result
  of the creation is what \<^verbatim>\<open>ProcessShaderNotFoundInShaderFixes\<close> returns.
\<close>

lemma creation_result_returned_without_bookkeeping:
  assumes "call_device E (Some bc) (length bc) class_linkage True s = (hr, shader, s1)"
    and "FAILED hr \<or> \<not> (hunting G \<or> shader_regex_groups G \<noteq> [])"
  shows "fst (ProcessShaderNotFoundInShaderFixes G E h bc class_linkage shader_type s) = hr"
  using assms
  by (auto simp: ProcessShaderNotFoundInShaderFixes_def Let_def split: prod.splits)

section \<open>Evicting a reused handle\<close>













section \<open>The order of the sources in the resolver\<close>

lemma resolver_first_success:
  assumes "SHADER_PATH G \<noteq> []" and "SHADER_CACHE_PATH G \<noteq> []"
  shows "inner_ReplaceShaderFromShaderFixes G E h shader_type bc hl osm s =
           first_success (resolution_stages G E h shader_type bc osm)
             \<lparr>code = None, found_shader_model = [], time_stamp = 0, header_line = hl\<rparr>
             (after_exports G E h shader_type bc s)"
  using assms
  by (simp add: inner_ReplaceShaderFromShaderFixes_def resolution_stages_def
      cached_binary_stage_def load_binary_shaders_def Let_def
      split: prod.splits bool.splits sum.splits option.splits)










section \<open>A shader marked bad\<close>

lemma store_cached_binary_keeps:
  "path_exists fs q \<Longrightarrow> path_exists (store_cached_binary E p bc t fs) q"
  by (simp add: path_exists_def store_cached_binary_def set_file_last_write_time_def
      split: option.splits)

lemma replace_hlsl_shader_keeps:
  "path_exists (files s) q \<Longrightarrow>
   path_exists (files (snd (snd (replace_hlsl_shader G E h shader_type bc osm out s)))) q"
  by (auto simp: replace_hlsl_shader_def emit_def Let_def store_cached_binary_keeps
      split: option.splits)

lemma replace_asm_shader_keeps:
  "path_exists (files s) q \<Longrightarrow>
   path_exists (files (snd (snd (replace_asm_shader G E h shader_type bc out s)))) q"
  by (auto simp: replace_asm_shader_def emit_def Let_def store_cached_binary_keeps
      split: option.splits assemble_result.splits)

lemma decompile_skipped_when_marked:
  "path_exists (files s) (shader_file (SHADER_PATH G) h shader_type ''_bad.txt'') \<Longrightarrow>
   decompile_and_possibly_patch_shader G E h bc shader_type osm out s = Inr (False, out, s)"
  by (simp add: decompile_and_possibly_patch_shader_def)

lemma first_success_skips_last:
  assumes "\<And>try_source out s found out1 s1.
             try_source \<in> set stages \<Longrightarrow> P s \<Longrightarrow> try_source out s = Inr (found, out1, s1)
             \<Longrightarrow> P s1"
    and "\<And>out s. P s \<Longrightarrow> last_source out s = Inr (False, out, s)"
    and "P s"
  shows "first_success (stages @ [last_source]) out s = first_success stages out s"
  using assms
proof (induction stages arbitrary: out s)
  case Nil
  then show ?case by simp
next
  case (Cons a stages)
  show ?case
  proof (cases "a out s")
    case (Inl e)
    then show ?thesis by simp
  next
    case (Inr r)
    obtain found out1 s1 where r: "r = (found, out1, s1)" by (cases r) auto
    have "P s1" using Cons.prems(1) [of a s out found out1 s1] Cons.prems(3) Inr r by simp
    have "first_success (stages @ [last_source]) out1 s1 = first_success stages out1 s1"
    proof (rule Cons.IH)
      show "P s1" by fact
      show "\<And>out s. P s \<Longrightarrow> last_source out s = Inr (False, out, s)"
        by (rule Cons.prems(2))
      show "\<And>try_source out s found out1 s1.
              try_source \<in> set stages \<Longrightarrow> P s \<Longrightarrow> try_source out s = Inr (found, out1, s1)
              \<Longrightarrow> P s1"
        using Cons.prems(1) by (meson list.set_intros(2))
    qed
    with Inr r show ?thesis by (cases found) simp_all
  qed
qed

text \<open>
  Claim C3, as amended. For a hash marked bad by the file \<^verbatim>\<open>_bad.txt\<close> in the fixes
  directory, the decompile-and-patch source is skipped with no attempt: it returns
  no substitute, calls nothing and writes nothing. The marker stops that source
  only: with both directories configured, the resolver's result is that of the
  four earlier sources - the two cached binaries, the recompilation and the
  reassembly - tried in their order, and what one of them finds is returned.
\<close>

theorem bad_marker_skips_decompiling:
  assumes m: "marker = shader_file (SHADER_PATH G) h shader_type ''_bad.txt''"
  shows "(path_exists (files s') marker \<longrightarrow>
            decompile_and_possibly_patch_shader G E h bc shader_type osm out s'
              = Inr (False, out, s'))
       \<and> (SHADER_PATH G \<noteq> [] \<and> SHADER_CACHE_PATH G \<noteq> []
            \<and> path_exists (files (after_exports G E h shader_type bc s)) marker \<longrightarrow>
          inner_ReplaceShaderFromShaderFixes G E h shader_type bc hl osm s =
            first_success (butlast (resolution_stages G E h shader_type bc osm))
              \<lparr>code = None, found_shader_model = [], time_stamp = 0, header_line = hl\<rparr>
              (after_exports G E h shader_type bc s))"
proof -
  let ?four = "[cached_binary_stage E (shader_file (SHADER_PATH G) h shader_type ''_replace.bin''),
      cached_binary_stage E (shader_file (SHADER_PATH G) h shader_type ''.bin''),
      (\<lambda>out s. Inr (replace_hlsl_shader G E h shader_type bc osm out s)),
      (\<lambda>out s. Inr (replace_asm_shader G E h shader_type bc out s))]"
  let ?last = "decompile_and_possibly_patch_shader G E h bc shader_type osm"
  have st: "resolution_stages G E h shader_type bc osm = ?four @ [?last]"
    by (simp add: resolution_stages_def)
  have keep: "path_exists (files s1) marker"
    if "try_source \<in> set ?four" "path_exists (files s0) marker"
      "try_source out0 s0 = Inr (found, out1, s1)"
    for try_source out0 s0 found out1 s1
    using that replace_hlsl_shader_keeps [of s0 marker G E h shader_type bc osm out0]
      replace_asm_shader_keeps [of s0 marker G E h shader_type bc out0]
    by (auto simp: cached_binary_stage_def split: prod.splits)
  have skip: "?last out0 s0 = Inr (False, out0, s0)" if "path_exists (files s0) marker"
    for out0 s0
    using that unfolding m by (rule decompile_skipped_when_marked)
  have b: "inner_ReplaceShaderFromShaderFixes G E h shader_type bc hl osm s =
            first_success (butlast (resolution_stages G E h shader_type bc osm))
              \<lparr>code = None, found_shader_model = [], time_stamp = 0, header_line = hl\<rparr>
              (after_exports G E h shader_type bc s)"
    if "SHADER_PATH G \<noteq> []" "SHADER_CACHE_PATH G \<noteq> []"
      "path_exists (files (after_exports G E h shader_type bc s)) marker"
    using first_success_skips_last [of ?four "\<lambda>s. path_exists (files s) marker" ?last
        "after_exports G E h shader_type bc s", OF keep skip that(3)]
    by (simp add: resolver_first_success [OF that(1,2)] st)
  from skip b show ?thesis by blast
qed

lemma G_export_hlsl_settings:
  "SHADER_PATH G_export_hlsl = ''ShaderFixes''" "SHADER_CACHE_PATH G_export_hlsl = ''ShaderCache''"
  "\<not> EXPORT_BINARY G_export_hlsl" "\<not> EXPORT_SHADERS G_export_hlsl"
  by (simp_all add: G_export_hlsl_def G0_def)

lemma fixes_bad_differs:
  "fixes_bad \<noteq> fixes_replace_bin" "fixes_bad \<noteq> fixes_replace_txt"
  "fixes_bad \<noteq> shader_file ''ShaderFixes'' 0xABCD ''vs'' ''.bin''"
  "fixes_bad \<noteq> shader_file ''ShaderFixes'' 0xABCD ''vs'' ''.txt''"
  by (simp_all add: fixes_bad_def fixes_replace_bin_def fixes_replace_txt_def shader_file_def)

text \<open>
  The theorem where only the marker is on disk and the decompiled source would
  otherwise be exported.
\<close>

theorem bad_marker_skips_decompiling_witness:
  "path_exists (files state_bad) fixes_bad
   \<and> decompile_and_possibly_patch_shader G_export_hlsl env0 0xABCD [9] ''vs'' None out0 state_bad
       = Inr (False, out0, state_bad)
   \<and> inner_ReplaceShaderFromShaderFixes G_export_hlsl env0 0xABCD ''vs'' [9] [] None state_bad
       = Inr (None, out0, state_bad)"
proof -
  have m: "fixes_bad = shader_file (SHADER_PATH G_export_hlsl) 0xABCD ''vs'' ''_bad.txt''"
    by (simp add: fixes_bad_def G_export_hlsl_settings)
  have e: "after_exports G_export_hlsl env0 0xABCD ''vs'' [9] state_bad = state_bad"
    by (simp add: after_exports_def G_export_hlsl_settings)
  have x: "path_exists (files state_bad) fixes_bad"
    by (simp add: path_exists_def state_bad_def)
  have g: "SHADER_PATH G_export_hlsl \<noteq> []" "SHADER_CACHE_PATH G_export_hlsl \<noteq> []"
    by (simp_all add: G_export_hlsl_settings)
  have f: "files state_bad (shader_file ''ShaderFixes'' 0xABCD ''vs'' ''_replace.bin'') = None"
    "files state_bad (shader_file ''ShaderFixes'' 0xABCD ''vs'' ''.bin'') = None"
    "files state_bad (shader_file ''ShaderFixes'' 0xABCD ''vs'' ''_replace.txt'') = None"
    "files state_bad (shader_file ''ShaderFixes'' 0xABCD ''vs'' ''.txt'') = None"
    using fixes_bad_differs
    by (simp_all add: state_bad_def fixes_replace_bin_def fixes_replace_txt_def)
  have four: "first_success (butlast (resolution_stages G_export_hlsl env0 0xABCD ''vs'' [9] None))
                \<lparr>code = None, found_shader_model = [], time_stamp = 0, header_line = []\<rparr>
                state_bad = Inr (None, out0, state_bad)"
    by (simp add: resolution_stages_def cached_binary_stage_def load_cached_shader_def
        replace_hlsl_shader_def replace_asm_shader_def G_export_hlsl_settings f out0_def)
  from bad_marker_skips_decompiling [OF m, of state_bad env0 "[9]" None out0 state_bad "[]"]
    x g
  show ?thesis by (simp add: e four)
qed

text \<open>
  Claim C3 as stated fails: the marker is present, and the resolver still looks up
  the cached binary and returns it.
\<close>

theorem bad_marker_does_not_stop_cached_binary:
  "path_exists (files state_bad_fresh)
     (shader_file (SHADER_PATH G_export_hlsl) 0xABCD ''vs'' ''_bad.txt'')
   \<and> inner_ReplaceShaderFromShaderFixes G_export_hlsl env0 0xABCD ''vs'' [9] [] None
       state_bad_fresh =
       Inr (Some [1, 2, 3],
            \<lparr>code = Some [1, 2, 3], found_shader_model = ''bin'', time_stamp = 5,
               header_line = []\<rparr>,
            state_bad_fresh)"
proof -
  have m: "shader_file (SHADER_PATH G_export_hlsl) 0xABCD ''vs'' ''_bad.txt'' = fixes_bad"
    by (simp add: fixes_bad_def G_export_hlsl_settings)
  have x: "path_exists (files state_bad_fresh) fixes_bad"
    by (simp add: path_exists_def state_bad_fresh_def)
  have p: "shader_file ''ShaderFixes'' 0xABCD ''vs'' ''_replace.bin'' = fixes_replace_bin"
    by (simp add: fixes_replace_bin_def)
  have f: "files state_bad_fresh fixes_replace_bin = Some (written_file [1, 2, 3] 5)"
    "files state_bad_fresh fixes_replace_txt = Some (written_file [7] 5)"
    using fixes_bad_differs fixes_replace_bin_neq_txt
    by (auto simp: state_bad_fresh_def fs_fresh_def)
  have l: "load_cached_shader env0 (files state_bad_fresh) fixes_replace_bin
             \<lparr>code = None, found_shader_model = [], time_stamp = 0, header_line = []\<rparr> =
           (True, \<lparr>code = Some [1, 2, 3], found_shader_model = ''bin'', time_stamp = 5,
                    header_line = []\<rparr>)"
    by (simp add: load_cached_shader_def check_cache_timestamp_def get_file_last_write_time_def
        f txt_path_of_fixes_replace_bin written_file_def GetFileTime_def read_complete_def)
  have r: "inner_ReplaceShaderFromShaderFixes G_export_hlsl env0 0xABCD ''vs'' [9] [] None
             state_bad_fresh =
           Inr (Some [1, 2, 3],
                \<lparr>code = Some [1, 2, 3], found_shader_model = ''bin'', time_stamp = 5,
                   header_line = []\<rparr>,
                state_bad_fresh)"
    by (simp add: inner_ReplaceShaderFromShaderFixes_def G_export_hlsl_settings after_exports_def
        load_binary_shaders_def p l)
  from x r show ?thesis by (simp add: m)
qed

end
